theory Spec2Isabelle
  imports Complex_Main
begin

section \<open>Python values and exceptions\<close>

text \<open>
  The services exchange decoded JSON documents and test them with Python's truthiness,
  \<open>dict.get\<close>, subscripting, membership and iteration. A value is therefore one of the
  shapes \<open>json.loads\<close> produces; \<open>JNull\<close> is Python's \<open>None\<close>. Numbers (\<open>int\<close> and
  \<open>float\<close> alike, and the clock's \<open>time.time()\<close>) are exact reals: the rounding of
  binary floating point is not part of the model. A decoded object is the association
  list of its keys, read with \<open>map_of\<close>.
\<close>

datatype json =
    JNull
  | JBool bool
  | JNum real
  | JStr string
  | JArr "json list"
  | JObj "(string \<times> json) list"

text \<open>
  An exception is either raised by a collaborator (the HTTP transport, a helper service)
  and carries its \<open>str(e)\<close>, or it is one of the built-in classes the code meets:
  \<open>ValueError\<close> with its message (the JSON decoder of a request, tuple unpacking),
  \<open>TypeError\<close> and \<open>AttributeError\<close> on an ill-typed operation, \<open>KeyError\<close> with
  the missing key. \<open>Raised\<close> stands for every class that is no \<open>ValueError\<close>.
\<close>

datatype exn =
    Raised string
  | ValueError string
  | TypeError
  | AttributeError
  | KeyError string

fun bind_exn :: "exn + 'a \<Rightarrow> ('a \<Rightarrow> exn + 'b) \<Rightarrow> exn + 'b" where
  "bind_exn (Inl e) f = Inl e"
| "bind_exn (Inr x) f = f x"

fun truthy :: "json \<Rightarrow> bool" where
  "truthy JNull = False"
| "truthy (JBool b) = b"
| "truthy (JNum r) = (r \<noteq> 0)"
| "truthy (JStr s) = (s \<noteq> [])"
| "truthy (JArr xs) = (xs \<noteq> [])"
| "truthy (JObj kvs) = (kvs \<noteq> [])"

text \<open>\<open>d.get(k, default)\<close>: only a dict has the method.\<close>

fun py_get :: "json \<Rightarrow> string \<Rightarrow> json \<Rightarrow> exn + json" where
  "py_get (JObj kvs) k d = Inr (case map_of kvs k of None \<Rightarrow> d | Some v \<Rightarrow> v)"
| "py_get _ k d = Inl AttributeError"

text \<open>\<open>d[k]\<close> with a string key: \<open>KeyError\<close> on a dict without the key, \<open>TypeError\<close>
  on every other value.\<close>

fun py_getitem :: "json \<Rightarrow> string \<Rightarrow> exn + json" where
  "py_getitem (JObj kvs) k = (case map_of kvs k of None \<Rightarrow> Inl (KeyError k) | Some v \<Rightarrow> Inr v)"
| "py_getitem _ k = Inl TypeError"

text \<open>\<open>for item in v\<close>: a list yields its elements, a dict its keys, a string its
  characters; the other values are not iterable.\<close>

fun py_iter :: "json \<Rightarrow> exn + json list" where
  "py_iter (JArr xs) = Inr xs"
| "py_iter (JObj kvs) = Inr (map (\<lambda>kv. JStr (fst kv)) kvs)"
| "py_iter (JStr s) = Inr (map (\<lambda>c. JStr [c]) s)"
| "py_iter _ = Inl TypeError"

text \<open>\<open>t + v\<close> for a float \<open>t\<close>: defined on numbers (\<open>bool\<close> counts as 0 or 1).\<close>

fun py_add_float :: "real \<Rightarrow> json \<Rightarrow> exn + real" where
  "py_add_float t (JNum r) = Inr (t + r)"
| "py_add_float t (JBool b) = Inr (t + (if b then 1 else 0))"
| "py_add_float t _ = Inl TypeError"

text \<open>\<open>s.rsplit(sep, 1)\<close>: one piece when \<open>sep\<close> does not occur, otherwise the part
  before the last \<open>sep\<close> and the part after it.\<close>

definition rsplit1 :: "char \<Rightarrow> string \<Rightarrow> string list" where
  "rsplit1 sep s =
     (if sep \<in> set s
      then [rev (drop 1 (dropWhile (\<lambda>c. c \<noteq> sep) (rev s))),
            rev (takeWhile (\<lambda>c. c \<noteq> sep) (rev s))]
      else [s])"

section \<open>The HTTP transport\<close>

text \<open>
  \<open>requests\<close> either raises or returns a response with a status code, a text and a
  \<open>json()\<close> method that may raise. The transport is a function from the request issued to
  that outcome; every operation returns, beside its result, the list of requests it issued.
\<close>

record response =
  status_code :: int
  resp_text :: string
  json_result :: "exn + json"

datatype request =
    TokenPost json json json
  | ChildrenGet json
  | FolderPost json string
  | ContentPut json string json string

type_synonym network = "request \<Rightarrow> exn + response"

section \<open>GraphService\<close>

text \<open>
  The fields of \<open>GraphService\<close>. \<open>configured\<close> is the value of
  \<open>Config.is_onedrive_enabled()\<close>, which \<open>is_configured\<close> returns; the class \<open>Config\<close>
  is a parameter of the service.
\<close>

record graph_service =
  client_id :: json
  client_secret :: json
  tenant_id :: json
  configured :: bool
  onedrive_upload_enabled :: json
  onedrive_folder :: string
  access_token :: json
  token_expires_at :: "real option"

definition is_configured :: "graph_service \<Rightarrow> bool" where
  "is_configured gs = configured gs"

definition token_request :: "graph_service \<Rightarrow> request" where
  "token_request gs = TokenPost (tenant_id gs) (client_id gs) (client_secret gs)"

text \<open>
  The cache test of \<open>_get_access_token\<close>: the cached token and the cached expiry both
  pass Python's truth test, and the clock is before the expiry minus 300 seconds.
\<close>

definition cached_token_valid :: "graph_service \<Rightarrow> real \<Rightarrow> bool" where
  "cached_token_valid gs now =
     (truthy (access_token gs) \<and>
      (case token_expires_at gs of None \<Rightarrow> False | Some e \<Rightarrow> e \<noteq> 0 \<and> now < e - 300))"

text \<open>
  \<open>_get_access_token\<close>. The clock is read once for the cache test (\<open>t_check\<close>) and once
  more after a 200 answer (\<open>t_store\<close>). Every exception is caught and turns into \<open>None\<close>;
  an exception raised after the assignment of \<open>_access_token\<close> leaves that assignment
  in place.
\<close>

definition get_access_token ::
  "graph_service \<Rightarrow> network \<Rightarrow> real \<Rightarrow> real \<Rightarrow> json \<times> graph_service \<times> request list" where
  "get_access_token gs net t_check t_store =
     (if cached_token_valid gs t_check then (access_token gs, gs, [])
      else
        (case net (token_request gs) of
           Inl e \<Rightarrow> (JNull, gs, [token_request gs])
         | Inr r \<Rightarrow>
             if status_code r = 200 then
               (case json_result r of
                  Inl e \<Rightarrow> (JNull, gs, [token_request gs])
                | Inr token_data \<Rightarrow>
                    (case py_get token_data ''access_token'' JNull of
                       Inl e \<Rightarrow> (JNull, gs, [token_request gs])
                     | Inr tok \<Rightarrow>
                         (case bind_exn (py_get token_data ''expires_in'' (JNum 3600))
                                 (py_add_float t_store) of
                            Inl e \<Rightarrow> (JNull, gs\<lparr>access_token := tok\<rparr>, [token_request gs])
                          | Inr expiry \<Rightarrow>
                              (tok, gs\<lparr>access_token := tok, token_expires_at := Some expiry\<rparr>,
                               [token_request gs]))))
             else (JNull, gs, [token_request gs])))"

text \<open>
  The loop of \<open>_ensure_folder_exists\<close> over the listed items: the first item whose
  \<open>name\<close> equals the folder name and whose \<open>folder\<close> entry is not \<open>None\<close> ends the
  search with its \<open>id\<close>; an item that is no dict raises.
\<close>

fun find_folder :: "json list \<Rightarrow> string \<Rightarrow> exn + json option" where
  "find_folder [] folder_name = Inr None"
| "find_folder (item # items) folder_name =
     (case py_get item ''name'' JNull of
        Inl e \<Rightarrow> Inl e
      | Inr n \<Rightarrow>
          if n = JStr folder_name then
            (case py_get item ''folder'' JNull of
               Inl e \<Rightarrow> Inl e
             | Inr f \<Rightarrow>
                 if f \<noteq> JNull then
                   (case py_get item ''id'' JNull of
                      Inl e \<Rightarrow> Inl e
                    | Inr i \<Rightarrow> Inr (Some i))
                 else find_folder items folder_name)
          else find_folder items folder_name)"

text \<open>
  The search step on the listing's response: only a 200 answer is read; any other
  status leaves the search without a result and without an error.
\<close>

definition search_existing :: "response \<Rightarrow> string \<Rightarrow> exn + json option" where
  "search_existing r folder_name =
     (if status_code r = 200 then
        bind_exn (json_result r) (\<lambda>listing.
        bind_exn (py_get listing ''value'' (JArr [])) (\<lambda>v.
        bind_exn (py_iter v) (\<lambda>items. find_folder items folder_name)))
      else Inr None)"

text \<open>The creation step on its response: 200 and 201 give the \<open>id\<close> of the answer.\<close>

definition created_folder :: "response \<Rightarrow> exn + json" where
  "created_folder r =
     (if status_code r = 200 \<or> status_code r = 201 then
        bind_exn (json_result r) (\<lambda>folder_info. py_get folder_info ''id'' JNull)
      else Inr JNull)"

text \<open>
  \<open>_ensure_folder_exists\<close>: the folder id, or \<open>None\<close> (\<open>JNull\<close>) on a failed creation
  and on every exception, with the requests issued.
\<close>

definition ensure_folder_exists :: "network \<Rightarrow> json \<Rightarrow> string \<Rightarrow> json \<times> request list" where
  "ensure_folder_exists net token folder_name =
     (case net (ChildrenGet token) of
        Inl e \<Rightarrow> (JNull, [ChildrenGet token])
      | Inr r \<Rightarrow>
          (case search_existing r folder_name of
             Inl e \<Rightarrow> (JNull, [ChildrenGet token])
           | Inr (Some folder_id) \<Rightarrow> (folder_id, [ChildrenGet token])
           | Inr None \<Rightarrow>
               (case bind_exn (net (FolderPost token folder_name)) created_folder of
                  Inl e \<Rightarrow> (JNull, [ChildrenGet token, FolderPost token folder_name])
                | Inr folder_id \<Rightarrow>
                    (folder_id, [ChildrenGet token, FolderPost token folder_name]))))"

subsection \<open>Unique file names\<close>

text \<open>
  \<open>datetime.now()\<close> is a calendar date and a time of day down to the microsecond.
  \<open>strftime("%Y%m%d_%H%M%S")\<close> writes the year on four digits and the month, day, hour,
  minute and second on two, each a decimal number padded with zeros on the left.
\<close>

record datetime =
  year :: nat
  month :: nat
  day :: nat
  hour :: nat
  minute :: nat
  second :: nat
  microsecond :: nat

definition digit_char :: "nat \<Rightarrow> char" where
  "digit_char d = ''0123456789'' ! d"

function decimal :: "nat \<Rightarrow> string" where
  "decimal n = (if n < 10 then [digit_char n] else decimal (n div 10) @ [digit_char (n mod 10)])"
  by pat_completeness auto
termination
  by (relation "measure (\<lambda>n. n)") auto

declare decimal.simps [simp del]

definition zfill :: "nat \<Rightarrow> string \<Rightarrow> string" where
  "zfill width s = replicate (width - length s) CHR ''0'' @ s"

definition strftime :: "datetime \<Rightarrow> string" where
  "strftime dt =
     zfill 4 (decimal (year dt)) @ zfill 2 (decimal (month dt)) @ zfill 2 (decimal (day dt))
     @ ''_'' @
     zfill 2 (decimal (hour dt)) @ zfill 2 (decimal (minute dt)) @ zfill 2 (decimal (second dt))"

text \<open>
  What \<open>datetime.now()\<close> can return: a date of the years 1000 to 9999 (the years on
  which every platform's \<open>%Y\<close> has four digits) with the fields in their calendar ranges.
\<close>

definition valid_datetime :: "datetime \<Rightarrow> bool" where
  "valid_datetime dt =
     (1000 \<le> year dt \<and> year dt \<le> 9999 \<and> 1 \<le> month dt \<and> month dt \<le> 12 \<and>
      1 \<le> day dt \<and> day dt \<le> 31 \<and> hour dt \<le> 23 \<and> minute dt \<le> 59 \<and> second dt \<le> 59 \<and>
      microsecond dt \<le> 999999)"

text \<open>
  \<open>a, b = xs\<close>: unpacking into two names raises \<open>ValueError\<close> unless there are exactly
  two values.
\<close>

fun unpack2 :: "'a list \<Rightarrow> exn + 'a \<times> 'a" where
  "unpack2 [a, b] = Inr (a, b)"
| "unpack2 xs =
     Inl (ValueError
       (if length xs < 2
        then ''not enough values to unpack (expected 2, got '' @ decimal (length xs) @ '')''
        else ''too many values to unpack (expected 2)''))"

definition get_unique_filename :: "string \<Rightarrow> string \<Rightarrow> datetime \<Rightarrow> exn + string" where
  "get_unique_filename file_name user_id now =
     bind_exn (if CHR ''.'' \<in> set file_name then unpack2 (rsplit1 CHR ''.'' file_name)
               else Inr (file_name, []))
       (\<lambda>(name, ext).
          let unique_name = name @ ''_'' @ user_id @ ''_'' @ strftime now
          in Inr (if ext \<noteq> [] then unique_name @ ''.'' @ ext else unique_name))"

subsection \<open>Upload\<close>

text \<open>
  The dictionaries \<open>upload_to_onedrive\<close> returns: a failure with its error text
  (not configured; no token; no folder; \<open>Erreur HTTP <status>: <text>\<close>;
  \<open>Erreur interne: <exception>\<close>), the success with the \<open>info\<close> note when uploads are
  switched off, and the success with \<open>onedrive_url\<close>, \<open>file_id\<close> and \<open>file_name\<close>.
\<close>

datatype upload_error =
    NotConfigured
  | TokenUnavailable
  | FolderUnavailable
  | HttpError int string
  | InternalError exn

datatype upload_result =
    UploadFailed upload_error
  | UploadDisabled
  | Uploaded json json string

fun success :: "upload_result \<Rightarrow> bool" where
  "success (UploadFailed e) = False"
| "success UploadDisabled = True"
| "success (Uploaded url file_id file_name) = True"

fun info :: "upload_result \<Rightarrow> bool" where
  "info UploadDisabled = True"
| "info _ = False"

record clock =
  time_check :: real
  time_store :: real
  datetime_now :: datetime

text \<open>The PUT of the content and the reading of its answer, inside the \<open>try\<close>.\<close>

definition put_content ::
  "network \<Rightarrow> json \<Rightarrow> string \<Rightarrow> json \<Rightarrow> string \<Rightarrow> exn + upload_result" where
  "put_content net folder_id unique_filename token file_content =
     bind_exn (net (ContentPut folder_id unique_filename token file_content)) (\<lambda>r.
       if status_code r = 200 \<or> status_code r = 201 then
         bind_exn (json_result r) (\<lambda>file_info.
         bind_exn (py_get file_info ''webUrl'' JNull) (\<lambda>onedrive_url.
         bind_exn (py_get file_info ''id'' JNull) (\<lambda>file_id.
           Inr (Uploaded onedrive_url file_id unique_filename))))
       else Inr (UploadFailed (HttpError (status_code r) (resp_text r))))"

definition upload_to_onedrive ::
  "graph_service \<Rightarrow> network \<Rightarrow> clock \<Rightarrow> string \<Rightarrow> string \<Rightarrow> string
     \<Rightarrow> upload_result \<times> graph_service \<times> request list" where
  "upload_to_onedrive gs net clk file_content file_name user_id =
     (if \<not> is_configured gs then (UploadFailed NotConfigured, gs, [])
      else if onedrive_upload_enabled gs = JBool False then (UploadDisabled, gs, [])
      else
        (case get_access_token gs net (time_check clk) (time_store clk) of
           (token, gs1, reqs1) \<Rightarrow>
             if \<not> truthy token then (UploadFailed TokenUnavailable, gs1, reqs1)
             else
               (case ensure_folder_exists net token (onedrive_folder gs1) of
                  (folder_id, reqs2) \<Rightarrow>
                    if \<not> truthy folder_id then (UploadFailed FolderUnavailable, gs1, reqs1 @ reqs2)
                    else
                      (case get_unique_filename file_name user_id (datetime_now clk) of
                         Inl e \<Rightarrow> (UploadFailed (InternalError e), gs1, reqs1 @ reqs2)
                       | Inr unique_filename \<Rightarrow>
                           (case put_content net folder_id unique_filename token file_content of
                              Inl e \<Rightarrow>
                                (UploadFailed (InternalError e), gs1,
                                 reqs1 @ reqs2 @
                                 [ContentPut folder_id unique_filename token file_content])
                            | Inr res \<Rightarrow>
                                (res, gs1,
                                 reqs1 @ reqs2 @
                                 [ContentPut folder_id unique_filename token file_content]))))))"

section \<open>The function app\<close>

subsection \<open>Requests, responses and collaborators\<close>

text \<open>
  An \<open>HttpRequest\<close> as the handlers read it: the raw body, the outcome of \<open>get_json()\<close>
  (a \<open>ValueError\<close> on a body that is no JSON), the route parameters and the query
  parameters.
\<close>

record http_request =
  get_body :: string
  get_json :: "exn + json"
  route_params :: "(string \<times> string) list"
  params :: "(string \<times> string) list"

text \<open>
  The texts the handlers pass to \<open>create_error_response\<close>, one constructor for each, with
  the values its f-string interpolates:
  \<open>MissingBody\<close> (request body missing), \<open>InvalidJson e\<close> (\<open>JSON invalide: <e>\<close>),
  \<open>MissingParameter field\<close>, \<open>BlobNotFound blob_name\<close>,
  \<open>TranslationFailed e\<close> (\<open>Erreur lors de la traduction: <e>\<close>),
  \<open>MissingTranslationId\<close>, \<open>StatusMessage m\<close> (the \<open>message\<close> of the status handler),
  \<open>InternalFailure e\<close> (\<open>Erreur interne: <e>\<close>), \<open>MissingParameters\<close> (of
  \<open>get_result\<close>), \<open>TranslatedFileNotFound\<close>, \<open>MissingEnvironment names\<close> and
  \<open>ServiceUnhealthy e\<close> (\<open>Service unhealthy: <e>\<close>).
\<close>

datatype error_message =
    MissingBody
  | InvalidJson exn
  | MissingParameter string
  | BlobNotFound json
  | TranslationFailed exn
  | MissingTranslationId
  | StatusMessage json
  | InternalFailure exn
  | MissingParameters
  | TranslatedFileNotFound
  | MissingEnvironment "string list"
  | ServiceUnhealthy exn

text \<open>
  The dictionaries the handlers pass to \<open>create_response\<close>: the started translation
  (\<open>translation_id\<close>, the blob name of its message, \<open>target_language\<close>), the status data,
  the result links (\<open>download_url\<close> and, with a user id, \<open>onedrive_url\<close>), the health
  report (timestamp and the \<open>onedrive\<close> entry) and a listing with its count.
\<close>

datatype payload =
    TranslationStarted json json json
  | StatusData json
  | ResultLinks json "upload_result option"
  | Health string string
  | Listing string json nat

record http_response =
  status :: int
  content :: "error_message + payload"

text \<open>
  Modelled from the spec: \<open>shared.utils.response_helper\<close> is not among the sources.
  The HTTP surface of the spec has every handler answer with a status code and a JSON
  envelope, so \<open>create_response\<close> and \<open>create_error_response\<close> build the response from
  the payload or message and the status they are given, and do not raise.
\<close>

definition create_response :: "payload \<Rightarrow> int \<Rightarrow> http_response" where
  "create_response p code = \<lparr>status = code, content = Inr p\<rparr>"

definition create_error_response :: "error_message \<Rightarrow> int \<Rightarrow> http_response" where
  "create_error_response m code = \<lparr>status = code, content = Inl m\<rparr>"

text \<open>
  \<open>BlobService\<close>, \<open>TranslationService\<close>, \<open>StatusHandler\<close>, the schemas and the process
  environment are collaborators outside the sources: each call is a parameter that raises
  or returns.
\<close>

record blob_service =
  check_blob_exists :: "json \<Rightarrow> exn + bool"
  prepare_translation_urls :: "json \<Rightarrow> json \<Rightarrow> exn + json"
  get_translated_file_url :: "string \<Rightarrow> exn + json"
  download_translated_file :: "string \<Rightarrow> exn + string"

record translation_service =
  service_start_translation :: "json \<Rightarrow> json \<Rightarrow> json \<Rightarrow> exn + json"

record app =
  new_blob_service :: "exn + blob_service"
  new_translation_service :: "exn + translation_service"
  module_blob_service :: blob_service
  check_status :: "string \<Rightarrow> exn + json"
  getenv :: "string \<Rightarrow> exn + string option"
  module_onedrive_upload_enabled :: json
  utcnow_isoformat :: "exn + string"
  get_all_languages :: "exn + json"
  get_all_formats :: "exn + json"

subsection \<open>More of Python\<close>

text \<open>\<open>p in s\<close> on strings: \<open>p\<close> occurs in \<open>s\<close> as a contiguous piece.\<close>

definition is_substring :: "string \<Rightarrow> string \<Rightarrow> bool" where
  "is_substring p s = list_ex (\<lambda>n. take (length p) (drop n s) = p) [0..<Suc (length s)]"

text \<open>\<open>k in v\<close> for a string \<open>k\<close>: a key of a dict, an element of a list, a piece of a
  string; \<open>TypeError\<close> on the other values.\<close>

fun py_contains :: "json \<Rightarrow> string \<Rightarrow> exn + bool" where
  "py_contains (JObj kvs) k = Inr (k \<in> set (map fst kvs))"
| "py_contains (JArr xs) k = Inr (JStr k \<in> set xs)"
| "py_contains (JStr s) k = Inr (is_substring k s)"
| "py_contains _ k = Inl TypeError"

fun py_len :: "json \<Rightarrow> exn + nat" where
  "py_len (JArr xs) = Inr (length xs)"
| "py_len (JObj kvs) = Inr (length kvs)"
| "py_len (JStr s) = Inr (length s)"
| "py_len _ = Inl TypeError"

text \<open>\<open>not v\<close> for a query or route parameter: absent or empty.\<close>

fun absent :: "string option \<Rightarrow> bool" where
  "absent None = True"
| "absent (Some s) = (s = [])"

subsection \<open>start_translation\<close>

text \<open>The loop over \<open>required_fields\<close>: the first field that is not in \<open>data\<close>.\<close>

fun first_missing :: "json \<Rightarrow> string list \<Rightarrow> exn + string option" where
  "first_missing data [] = Inr None"
| "first_missing data (field # others) =
     (case py_contains data field of
        Inl e \<Rightarrow> Inl e
      | Inr present \<Rightarrow> if present then first_missing data others else Inr (Some field))"

definition required_fields :: "string list" where
  "required_fields = [''blob_name'', ''target_language'', ''user_id'']"

text \<open>Steps 1 to 3 of the handler, after the fields have been read.\<close>

definition submit_translation :: "app \<Rightarrow> json \<Rightarrow> json \<Rightarrow> exn + http_response" where
  "submit_translation env blob_name target_language =
     bind_exn (new_blob_service env) (\<lambda>blob_service.
     bind_exn (check_blob_exists blob_service blob_name) (\<lambda>exists.
       if \<not> exists then Inr (create_error_response (BlobNotFound blob_name) 404)
       else
         bind_exn (prepare_translation_urls blob_service blob_name target_language) (\<lambda>blob_urls.
         bind_exn (py_getitem blob_urls ''source_url'') (\<lambda>source_url.
         bind_exn (py_getitem blob_urls ''target_url'') (\<lambda>target_url.
         bind_exn (new_translation_service env) (\<lambda>translation_service.
         bind_exn (service_start_translation translation_service
                     source_url target_url target_language) (\<lambda>translation_id.
           Inr (create_response
                  (TranslationStarted translation_id blob_name target_language) 202))))))))"

text \<open>The body of the \<open>try\<close>: \<open>Inl\<close> is an exception that reaches the outer \<open>except\<close>.\<close>

definition start_translation_body :: "app \<Rightarrow> http_request \<Rightarrow> exn + http_response" where
  "start_translation_body env req =
     (if get_body req = [] then Inr (create_error_response MissingBody 400)
      else
        (case get_json req of
           Inl (ValueError m) \<Rightarrow> Inr (create_error_response (InvalidJson (ValueError m)) 400)
         | Inl e \<Rightarrow> Inl e
         | Inr data \<Rightarrow>
             bind_exn (first_missing data required_fields) (\<lambda>missing.
               case missing of
                 Some field \<Rightarrow> Inr (create_error_response (MissingParameter field) 400)
               | None \<Rightarrow>
                   bind_exn (py_getitem data ''blob_name'') (\<lambda>blob_name.
                   bind_exn (py_getitem data ''target_language'') (\<lambda>target_language.
                   bind_exn (py_getitem data ''user_id'') (\<lambda>user_id.
                     submit_translation env blob_name target_language))))))"

definition start_translation :: "app \<Rightarrow> http_request \<Rightarrow> http_response" where
  "start_translation env req =
     (case start_translation_body env req of
        Inl e \<Rightarrow> create_error_response (TranslationFailed e) 500
      | Inr r \<Rightarrow> r)"

subsection \<open>check_status\<close>

definition check_translation_status_body :: "app \<Rightarrow> string \<Rightarrow> exn + http_response" where
  "check_translation_status_body env translation_id =
     bind_exn (check_status env translation_id) (\<lambda>result.
     bind_exn (py_getitem result ''success'') (\<lambda>ok.
       if truthy ok
       then bind_exn (py_getitem result ''data'') (\<lambda>d. Inr (create_response (StatusData d) 200))
       else bind_exn (py_getitem result ''message'') (\<lambda>m.
              Inr (create_error_response (StatusMessage m) 404))))"

definition check_translation_status :: "app \<Rightarrow> http_request \<Rightarrow> http_response" where
  "check_translation_status env req =
     (case map_of (route_params req) ''translation_id'' of
        None \<Rightarrow> create_error_response MissingTranslationId 400
      | Some translation_id \<Rightarrow>
          if translation_id = [] then create_error_response MissingTranslationId 400
          else
            (case check_translation_status_body env translation_id of
               Inl e \<Rightarrow> create_error_response (InternalFailure e) 500
             | Inr r \<Rightarrow> r))"

subsection \<open>get_result\<close>

text \<open>
  The name of the output blob: \<open>file_base, file_ext = blob_name.rsplit('.', 1)\<close>, then
  \<open><file_base>-<target_language>.<file_ext>\<close>. The unpacking raises when the blob name
  has no dot.
\<close>

definition output_blob_name :: "string \<Rightarrow> string \<Rightarrow> exn + string" where
  "output_blob_name blob_name target_language =
     bind_exn (unpack2 (rsplit1 CHR ''.'' blob_name)) (\<lambda>(file_base, file_ext).
       Inr (file_base @ ''-'' @ target_language @ ''.'' @ file_ext))"

text \<open>
  The body of the \<open>try\<close>, with the state of the module's \<open>graph_service\<close> and the
  requests it issues. An exception can only be raised before the upload starts.
\<close>

definition get_translation_result_body ::
  "app \<Rightarrow> graph_service \<Rightarrow> network \<Rightarrow> clock \<Rightarrow> string \<Rightarrow> string \<Rightarrow> string option
     \<Rightarrow> exn + http_response \<times> graph_service \<times> request list" where
  "get_translation_result_body env gs net clk blob_name target_language user_id =
     bind_exn (output_blob_name blob_name target_language) (\<lambda>name.
     bind_exn (get_translated_file_url (module_blob_service env) name) (\<lambda>download_url.
       if \<not> truthy download_url
       then Inr (create_error_response TranslatedFileNotFound 404, gs, [])
       else
         (case user_id of
            None \<Rightarrow> Inr (create_response (ResultLinks download_url None) 200, gs, [])
          | Some uid \<Rightarrow>
              if uid = [] then Inr (create_response (ResultLinks download_url None) 200, gs, [])
              else
                bind_exn (download_translated_file (module_blob_service env) name)
                  (\<lambda>file_content.
                     case upload_to_onedrive gs net clk file_content name uid of
                       (onedrive_url, gs1, reqs) \<Rightarrow>
                         Inr (create_response
                                (ResultLinks download_url (Some onedrive_url)) 200,
                              gs1, reqs)))))"

definition get_translation_result ::
  "app \<Rightarrow> graph_service \<Rightarrow> network \<Rightarrow> clock \<Rightarrow> http_request
     \<Rightarrow> http_response \<times> graph_service \<times> request list" where
  "get_translation_result env gs net clk req =
     (case (map_of (params req) ''blob_name'', map_of (params req) ''target_language'') of
        (Some blob_name, Some target_language) \<Rightarrow>
          if blob_name = [] \<or> target_language = []
          then (create_error_response MissingParameters 400, gs, [])
          else
            (case get_translation_result_body env gs net clk blob_name target_language
                    (map_of (params req) ''user_id'') of
               Inl e \<Rightarrow> (create_error_response (InternalFailure e) 500, gs, [])
             | Inr out \<Rightarrow> out)
      | _ \<Rightarrow> (create_error_response MissingParameters 400, gs, []))"

subsection \<open>health\<close>

definition required_vars :: "string list" where
  "required_vars =
     [''TRANSLATOR_KEY'', ''TRANSLATOR_ENDPOINT'', ''AZURE_ACCOUNT_NAME'', ''AZURE_ACCOUNT_KEY'']"

text \<open>\<open>[var for var in required_vars if not os.getenv(var)]\<close>, in order.\<close>

fun missing_vars :: "(string \<Rightarrow> exn + string option) \<Rightarrow> string list \<Rightarrow> exn + string list" where
  "missing_vars lookup [] = Inr []"
| "missing_vars lookup (var # vars) =
     (case lookup var of
        Inl e \<Rightarrow> Inl e
      | Inr v \<Rightarrow>
          (case missing_vars lookup vars of
             Inl e \<Rightarrow> Inl e
           | Inr ms \<Rightarrow> Inr (if absent v then var # ms else ms)))"

definition health_check_body :: "app \<Rightarrow> exn + http_response" where
  "health_check_body env =
     bind_exn (missing_vars (getenv env) required_vars) (\<lambda>missing.
       if missing \<noteq> [] then Inr (create_error_response (MissingEnvironment missing) 503)
       else
         bind_exn (utcnow_isoformat env) (\<lambda>timestamp.
           Inr (create_response
                  (Health timestamp
                     (if truthy (module_onedrive_upload_enabled env) then ''available''
                      else ''not configured''))
                  200)))"

definition health_check :: "app \<Rightarrow> http_response" where
  "health_check env =
     (case health_check_body env of
        Inl e \<Rightarrow> create_error_response (ServiceUnhealthy e) 503
      | Inr r \<Rightarrow> r)"

subsection \<open>languages and formats\<close>

definition listing_body :: "string \<Rightarrow> exn + json \<Rightarrow> exn + http_response" where
  "listing_body key source =
     bind_exn source (\<lambda>items.
     bind_exn (py_len items) (\<lambda>n. Inr (create_response (Listing key items n) 200)))"

definition get_supported_languages :: "app \<Rightarrow> http_response" where
  "get_supported_languages env =
     (case listing_body ''languages'' (get_all_languages env) of
        Inl e \<Rightarrow> create_error_response (InternalFailure e) 500
      | Inr r \<Rightarrow> r)"

definition get_supported_formats :: "app \<Rightarrow> http_response" where
  "get_supported_formats env =
     (case listing_body ''formats'' (get_all_formats env) of
        Inl e \<Rightarrow> create_error_response (InternalFailure e) 500
      | Inr r \<Rightarrow> r)"

section \<open>Notions of the specification\<close>

text \<open>
  The validity a cached token has left at an instant: its expiry minus that instant
  (nothing without an expiry).
\<close>

definition remaining_validity :: "graph_service \<Rightarrow> real \<Rightarrow> real" where
  "remaining_validity gs t = (case token_expires_at gs of None \<Rightarrow> 0 | Some e \<Rightarrow> e - t)"

text \<open>
  The lifetime the identity provider reports in an answer: the number under
  \<open>expires_in\<close>, 3600 when the key is absent.
\<close>

definition reported_lifetime :: "exn + response \<Rightarrow> real option" where
  "reported_lifetime outcome =
     (case outcome of
        Inl e \<Rightarrow> None
      | Inr r \<Rightarrow>
          (case bind_exn (json_result r) (\<lambda>token_data.
                  bind_exn (py_get token_data ''expires_in'' (JNum 3600)) (py_add_float 0)) of
             Inl e \<Rightarrow> None
           | Inr secs \<Rightarrow> Some secs))"

text \<open>
  A refresh that fails before a 200 answer is decoded: the transport raises, the status
  is not 200, or \<open>json()\<close> raises.
\<close>

definition refresh_fails :: "exn + response \<Rightarrow> bool" where
  "refresh_fails outcome =
     (case outcome of
        Inl e \<Rightarrow> True
      | Inr r \<Rightarrow> status_code r \<noteq> 200 \<or> (case json_result r of Inl e \<Rightarrow> True | Inr d \<Rightarrow> False))"

text \<open>
  The patterns of file names: a decimal digit; a string made of a prefix, fourteen
  digits and a suffix, as the specification words the pattern of a unique name.
\<close>

definition is_digit :: "char \<Rightarrow> bool" where
  "is_digit c = (c \<in> set ''0123456789'')"

definition fourteen_digit_name :: "string \<Rightarrow> string \<Rightarrow> string \<Rightarrow> bool" where
  "fourteen_digit_name pre suf s =
     (length s = length pre + 14 + length suf \<and> take (length pre) s = pre \<and>
      list_all is_digit (take 14 (drop (length pre) s)) \<and> drop (length pre + 14) s = suf)"

text \<open>Two instants of the same wall-clock second differ in the microsecond at most.\<close>

definition same_second :: "datetime \<Rightarrow> datetime \<Rightarrow> bool" where
  "same_second a b =
     (year a = year b \<and> month a = month b \<and> day a = day b \<and>
      hour a = hour b \<and> minute a = minute b \<and> second a = second b)"

text \<open>
  Modelled from the spec: \<open>TranslationService.start_translation\<close> is not among the
  sources. By the contract of the translation submission it returns the job identifier
  the external engine assigned, or fails; a submission has succeeded when the call
  returned an identifier, a string that is not empty.
\<close>

definition submitted :: "exn + json \<Rightarrow> string \<Rightarrow> bool" where
  "submitted outcome job_id = (outcome = Inr (JStr job_id) \<and> job_id \<noteq> [])"

section \<open>Sample data\<close>

definition sample_service :: graph_service where
  "sample_service =
     \<lparr>client_id = JStr ''client'', client_secret = JStr ''secret'', tenant_id = JStr ''tenant'',
      configured = True, onedrive_upload_enabled = JBool True,
      onedrive_folder = ''Translated Documents'',
      access_token = JNull, token_expires_at = None\<rparr>"

definition sample_token_request :: request where
  "sample_token_request = TokenPost (JStr ''tenant'') (JStr ''client'') (JStr ''secret'')"

text \<open>
  A transport on which the identity provider grants the token \<open>T\<close> for the given number
  of seconds, the listing of the drive root answers 500 and the creation of a folder
  answers 201 with the id \<open>F1\<close>.
\<close>

definition sample_network :: "real \<Rightarrow> network" where
  "sample_network lifetime rq =
     (case rq of
        TokenPost tenant client secret \<Rightarrow>
          Inr \<lparr>status_code = 200, resp_text = [],
               json_result =
                 Inr (JObj [(''access_token'', JStr ''T''), (''expires_in'', JNum lifetime)])\<rparr>
      | ChildrenGet token \<Rightarrow>
          Inr \<lparr>status_code = 500, resp_text = ''boom'', json_result = Inl (Raised ''no JSON'')\<rparr>
      | FolderPost token folder_name \<Rightarrow>
          Inr \<lparr>status_code = 201, resp_text = [], json_result = Inr (JObj [(''id'', JStr ''F1'')])\<rparr>
      | ContentPut folder_id file_name token file_content \<Rightarrow> Inl (Raised ''unreachable''))"

text \<open>A transport that answers every request with the given status and text.\<close>

definition refusing_network :: "int \<Rightarrow> string \<Rightarrow> network" where
  "refusing_network code txt rq =
     Inr \<lparr>status_code = code, resp_text = txt, json_result = Inl (Raised ''no JSON'')\<rparr>"

definition sample_datetime :: datetime where
  "sample_datetime =
     \<lparr>year = 2024, month = 1, day = 5, hour = 9, minute = 3, second = 7, microsecond = 0\<rparr>"

definition sample_clock :: clock where
  "sample_clock = \<lparr>time_check = 1000, time_store = 1001, datetime_now = sample_datetime\<rparr>"

text \<open>
  A blob store that holds \<open>doc.docx\<close> only, a translation engine that assigns the job
  \<open>job-1\<close>, and an application built on them with its environment complete.
\<close>

definition sample_blob_service :: blob_service where
  "sample_blob_service =
     \<lparr>check_blob_exists = (\<lambda>blob_name. Inr (blob_name = JStr ''doc.docx'')),
      prepare_translation_urls = (\<lambda>blob_name target_language.
        Inr (JObj [(''source_url'', JStr ''https://source''),
                   (''target_url'', JStr ''https://target'')])),
      get_translated_file_url = (\<lambda>name. Inr (JStr ''https://download'')),
      download_translated_file = (\<lambda>name. Inr ''bytes'')\<rparr>"

definition sample_translation_service :: translation_service where
  "sample_translation_service =
     \<lparr>service_start_translation = (\<lambda>source_url target_url target_language.
        Inr (JStr ''job-1''))\<rparr>"

definition sample_app :: app where
  "sample_app =
     \<lparr>new_blob_service = Inr sample_blob_service,
      new_translation_service = Inr sample_translation_service,
      module_blob_service = sample_blob_service,
      check_status = (\<lambda>translation_id.
        Inr (JObj [(''success'', JBool True), (''data'', JStr ''Running'')])),
      getenv = (\<lambda>var. Inr (Some ''set'')),
      module_onedrive_upload_enabled = JBool False,
      utcnow_isoformat = Inr ''2024-01-05T09:03:07+00:00'',
      get_all_languages = Inr (JArr [JStr ''fr'', JStr ''es'']),
      get_all_formats = Inr (JArr [JStr ''docx''])\<rparr>"

text \<open>An application every collaborator of which raises.\<close>

definition failing_app :: "string \<Rightarrow> app" where
  "failing_app m =
     \<lparr>new_blob_service = Inl (Raised m),
      new_translation_service = Inl (Raised m),
      module_blob_service =
        \<lparr>check_blob_exists = (\<lambda>blob_name. Inl (Raised m)),
         prepare_translation_urls = (\<lambda>blob_name target_language. Inl (Raised m)),
         get_translated_file_url = (\<lambda>name. Inl (Raised m)),
         download_translated_file = (\<lambda>name. Inl (Raised m))\<rparr>,
      check_status = (\<lambda>translation_id. Inl (Raised m)),
      getenv = (\<lambda>var. Inl (Raised m)),
      module_onedrive_upload_enabled = JBool False,
      utcnow_isoformat = Inl (Raised m),
      get_all_languages = Inl (Raised m),
      get_all_formats = Inl (Raised m)\<rparr>"

text \<open>
  A request that names a blob and the target language \<open>es\<close> in its JSON body and in its
  query, and the job \<open>job-1\<close> in its route. The raw body is abbreviated; the handler
  only tests that it is not empty.
\<close>

definition sample_request :: "string \<Rightarrow> http_request" where
  "sample_request blob_name =
     \<lparr>get_body = ''{...}'',
      get_json = Inr (JObj [(''blob_name'', JStr blob_name), (''target_language'', JStr ''es''),
                            (''user_id'', JStr ''u1'')]),
      route_params = [(''translation_id'', ''job-1'')],
      params = [(''blob_name'', blob_name), (''target_language'', ''es'')]\<rparr>"

section \<open>Lemmas on decimal numbers and splitting\<close>

lemma is_digit_digit_char: "d < 10 \<Longrightarrow> is_digit (digit_char d)"
  by (simp add: is_digit_def digit_char_def del: set_simps)

lemma decimal_digits: "list_all is_digit (decimal n)"
proof (induction n rule: decimal.induct)
  case (1 n)
  show ?case
  proof (cases "n < 10")
    case True
    then show ?thesis by (subst decimal.simps) (simp add: is_digit_digit_char)
  next
    case False
    with 1 show ?thesis by (subst decimal.simps) (simp add: is_digit_digit_char)
  qed
qed

lemma decimal_length: "0 < k \<Longrightarrow> n < 10 ^ k \<Longrightarrow> length (decimal n) \<le> k"
proof (induction k arbitrary: n)
  case 0
  then show ?case by simp
next
  case (Suc k)
  show ?case
  proof (cases "n < 10")
    case True
    then show ?thesis by (subst decimal.simps) simp
  next
    case False
    with Suc.prems have "0 < k" by (cases k) auto
    moreover from Suc.prems have "n div 10 < 10 ^ k" by (simp add: less_mult_imp_div_less mult.commute)
    ultimately have "length (decimal (n div 10)) \<le> k" by (rule Suc.IH)
    with False show ?thesis by (subst decimal.simps) simp
  qed
qed

lemma zfill_digits:
  assumes "0 < k" and "n < 10 ^ k"
  shows "length (zfill k (decimal n)) = k \<and> list_all is_digit (zfill k (decimal n))"
proof -
  from assms have "length (decimal n) \<le> k" by (rule decimal_length)
  moreover have "is_digit CHR ''0''" by (simp add: is_digit_def)
  ultimately show ?thesis
    using decimal_digits [of n] by (auto simp: zfill_def list_all_iff)
qed

lemma rsplit1_last:
  assumes "sep \<notin> set ext"
  shows "rsplit1 sep (base @ sep # ext) = [base, ext]"
proof -
  have "takeWhile (\<lambda>c. c \<noteq> sep) (rev ext @ sep # rev base) = rev ext"
    using assms by (simp add: takeWhile_append)
  moreover have "dropWhile (\<lambda>c. c \<noteq> sep) (rev ext @ sep # rev base) = sep # rev base"
    using assms by (simp add: dropWhile_append)
  ultimately show ?thesis by (simp add: rsplit1_def)
qed

lemma strftime_shape:
  assumes "valid_datetime now"
  shows "\<exists>date time. length date = 8 \<and> length time = 6 \<and>
           list_all is_digit date \<and> list_all is_digit time \<and>
           strftime now = date @ ''_'' @ time"
proof -
  let ?Y = "zfill 4 (decimal (year now))" and ?m = "zfill 2 (decimal (month now))"
  let ?d = "zfill 2 (decimal (day now))" and ?H = "zfill 2 (decimal (hour now))"
  let ?M = "zfill 2 (decimal (minute now))" and ?S = "zfill 2 (decimal (second now))"
  from assms have Y: "length ?Y = 4 \<and> list_all is_digit ?Y"
    by (intro zfill_digits) (simp_all add: valid_datetime_def)
  from assms have m: "length ?m = 2 \<and> list_all is_digit ?m"
    by (intro zfill_digits) (simp_all add: valid_datetime_def)
  from assms have d: "length ?d = 2 \<and> list_all is_digit ?d"
    by (intro zfill_digits) (simp_all add: valid_datetime_def)
  from assms have H: "length ?H = 2 \<and> list_all is_digit ?H"
    by (intro zfill_digits) (simp_all add: valid_datetime_def)
  from assms have M: "length ?M = 2 \<and> list_all is_digit ?M"
    by (intro zfill_digits) (simp_all add: valid_datetime_def)
  from assms have S: "length ?S = 2 \<and> list_all is_digit ?S"
    by (intro zfill_digits) (simp_all add: valid_datetime_def)
  have "strftime now = (?Y @ ?m @ ?d) @ ''_'' @ (?H @ ?M @ ?S)"
    by (simp add: strftime_def)
  moreover from Y m d have "length (?Y @ ?m @ ?d) = 8 \<and> list_all is_digit (?Y @ ?m @ ?d)"
    by simp
  moreover from H M S have "length (?H @ ?M @ ?S) = 6 \<and> list_all is_digit (?H @ ?M @ ?S)"
    by simp
  ultimately show ?thesis by blast
qed

lemma strftime_same_second: "same_second a b \<Longrightarrow> strftime a = strftime b"
  by (simp add: same_second_def strftime_def)

lemma first_missing_present:
  assumes "map_of kvs ''blob_name'' = Some b" and "map_of kvs ''target_language'' = Some l"
    and "map_of kvs ''user_id'' = Some u"
  shows "first_missing (JObj kvs) required_fields = Inr None"
proof -
  from assms have "''blob_name'' \<in> fst ` set kvs" "''target_language'' \<in> fst ` set kvs"
    "''user_id'' \<in> fst ` set kvs"
    by (auto dest!: map_of_SomeD intro: rev_image_eqI)
  then show ?thesis by (simp add: required_fields_def)
qed

section \<open>The credential cache\<close>

text \<open>
  C1, as stated, fails. On an empty cache the identity provider grants the token \<open>T\<close>
  for 60 seconds; \<open>_get_access_token\<close> returns \<open>T\<close>, stored with the expiry 1061 at the
  instant 1001, so with 60 seconds of validity left, fewer than 300.
\<close>

theorem short_lived_token_counterexample:
  "fst (get_access_token sample_service (sample_network 60) 1000 1001) = JStr ''T'' \<and>
   remaining_validity (fst (snd (get_access_token sample_service (sample_network 60) 1000 1001))) 1001
     = 60 \<and> \<not> (300 \<le> (60::real))"
  by (simp add: get_access_token_def cached_token_valid_def sample_service_def
      sample_network_def token_request_def remaining_validity_def)

text \<open>
  C1, amended. A token that \<open>_get_access_token\<close> returns is either served from the cache,
  without a request, and then has more than 300 seconds of validity left at the instant
  of the cache test; or it was fetched with one request, and then the validity it has left
  at the instant it is stored is exactly the lifetime the identity provider reported
  (\<open>expires_in\<close>, 3600 seconds when absent), whatever that lifetime is.
\<close>

theorem returned_token_validity:
  assumes "get_access_token gs net t_check t_store = (tok, gs', reqs)" and "tok \<noteq> JNull"
  shows "(reqs = [] \<and> tok = access_token gs \<and> 300 < remaining_validity gs' t_check) \<or>
         (reqs = [token_request gs] \<and>
          (\<exists>secs. reported_lifetime (net (token_request gs)) = Some secs \<and>
                  remaining_validity gs' t_store = secs))"
proof (cases "cached_token_valid gs t_check")
  case True
  with assms have "reqs = []" "tok = access_token gs" "gs' = gs"
    by (auto simp add: get_access_token_def)
  moreover from True have "300 < remaining_validity gs t_check"
    by (auto simp: cached_token_valid_def remaining_validity_def split: option.splits)
  ultimately show ?thesis by simp
next
  case False
  with assms show ?thesis
    by (auto simp: get_access_token_def reported_lifetime_def remaining_validity_def
        elim!: py_get.elims py_add_float.elims split: sum.splits if_splits)
qed

theorem returned_token_validity_witness:
  "get_access_token sample_service (sample_network 60) 1000 1001
     = (JStr ''T'', sample_service\<lparr>access_token := JStr ''T'', token_expires_at := Some 1061\<rparr>,
        [sample_token_request]) \<and>
   JStr ''T'' \<noteq> JNull \<and>
   reported_lifetime (sample_network 60 sample_token_request) = Some 60 \<and>
   remaining_validity
     (sample_service\<lparr>access_token := JStr ''T'', token_expires_at := Some 1061\<rparr>) 1001 = 60"
proof -
  have fetched: "get_access_token sample_service (sample_network 60) 1000 1001
     = (JStr ''T'', sample_service\<lparr>access_token := JStr ''T'', token_expires_at := Some 1061\<rparr>,
        [sample_token_request])"
    by (simp add: get_access_token_def cached_token_valid_def sample_service_def
        sample_network_def token_request_def sample_token_request_def)
  have req: "token_request sample_service = sample_token_request"
    by (simp add: token_request_def sample_service_def sample_token_request_def)
  have some: "JStr ''T'' \<noteq> JNull" by simp
  from returned_token_validity [OF fetched some] fetched req
  show ?thesis by (simp add: remaining_validity_def)
qed

text \<open>
  C2. When the cache holds a token (the cached value passes Python's truth test, the
  cached expiry is set and is not zero) and the expiry minus 300 seconds is still ahead of
  the clock, \<open>_get_access_token\<close> returns exactly the cached value, issues no request and
  leaves the cache as it was. In particular, after a call that returned a token, a second
  call inside the window returns the same value and issues no request.
\<close>

theorem cached_token_served_without_network:
  assumes "token_expires_at gs = Some e" and "e \<noteq> 0" and "t < e - 300"
  shows "(truthy (access_token gs) \<longrightarrow>
            get_access_token gs net t t' = (access_token gs, gs, [])) \<and>
         (get_access_token gs0 net0 a b = (tok, gs, reqs) \<and> truthy tok \<longrightarrow>
            get_access_token gs net t t' = (tok, gs, []))"
proof (intro conjI impI)
  assume "truthy (access_token gs)"
  with assms show "get_access_token gs net t t' = (access_token gs, gs, [])"
    by (simp add: get_access_token_def cached_token_valid_def)
next
  assume first: "get_access_token gs0 net0 a b = (tok, gs, reqs) \<and> truthy tok"
  then have "access_token gs = tok"
    by (auto simp: get_access_token_def split: if_splits sum.splits)
  with first assms show "get_access_token gs net t t' = (tok, gs, [])"
    by (simp add: get_access_token_def cached_token_valid_def)
qed

theorem cached_token_served_without_network_witness:
  "token_expires_at (sample_service\<lparr>access_token := JStr ''T'', token_expires_at := Some 4601\<rparr>)
     = Some 4601 \<and> (4601::real) \<noteq> 0 \<and> (2000::real) < 4601 - 300 \<and>
   truthy (access_token (sample_service\<lparr>access_token := JStr ''T'', token_expires_at := Some 4601\<rparr>)) \<and>
   get_access_token sample_service (sample_network 3600) 1000 1001
     = (JStr ''T'', sample_service\<lparr>access_token := JStr ''T'', token_expires_at := Some 4601\<rparr>,
        [sample_token_request]) \<and>
   get_access_token (sample_service\<lparr>access_token := JStr ''T'', token_expires_at := Some 4601\<rparr>)
     (refusing_network 503 ''down'') 2000 2001
     = (JStr ''T'', sample_service\<lparr>access_token := JStr ''T'', token_expires_at := Some 4601\<rparr>, [])"
proof -
  have first: "get_access_token sample_service (sample_network 3600) 1000 1001
     = (JStr ''T'', sample_service\<lparr>access_token := JStr ''T'', token_expires_at := Some 4601\<rparr>,
        [sample_token_request])"
    by (simp add: get_access_token_def cached_token_valid_def sample_service_def
        sample_network_def token_request_def sample_token_request_def)
  have expiry: "token_expires_at (sample_service\<lparr>access_token := JStr ''T'', token_expires_at := Some 4601\<rparr>)
     = Some 4601" by simp
  have "(4601::real) \<noteq> 0" and "(2000::real) < 4601 - 300" by simp_all
  from cached_token_served_without_network [OF expiry this, of "refusing_network 503 ''down''" 2001
      sample_service "sample_network 3600" 1000 1001 "JStr ''T''" "[sample_token_request]"] first
  show ?thesis by simp
qed

text \<open>
  C9. A refresh that fails before a 200 answer is decoded (the transport raises, the
  status is not 200, or \<open>json()\<close> raises) returns \<open>None\<close> and leaves the cached token
  and the cached expiry exactly as they were; and whenever a call changes the cache, the
  token endpoint has answered 200.
\<close>

theorem failed_refresh_leaves_cache:
  "(\<not> cached_token_valid gs t_check \<and> refresh_fails (net (token_request gs)) \<longrightarrow>
      get_access_token gs net t_check t_store = (JNull, gs, [token_request gs])) \<and>
   (fst (snd (get_access_token gs net t_check t_store)) \<noteq> gs \<longrightarrow>
      (\<exists>r. net (token_request gs) = Inr r \<and> status_code r = 200))"
  by (auto simp: get_access_token_def refresh_fails_def split: sum.splits if_splits)

theorem failed_refresh_leaves_cache_witness:
  "\<not> cached_token_valid (sample_service\<lparr>access_token := JStr ''old'', token_expires_at := Some 1200\<rparr>) 1000 \<and>
   refresh_fails (refusing_network 503 ''down'' sample_token_request) \<and>
   get_access_token (sample_service\<lparr>access_token := JStr ''old'', token_expires_at := Some 1200\<rparr>)
     (refusing_network 503 ''down'') 1000 1001
     = (JNull, sample_service\<lparr>access_token := JStr ''old'', token_expires_at := Some 1200\<rparr>,
        [sample_token_request]) \<and>
   fst (snd (get_access_token sample_service (sample_network 3600) 1000 1001)) \<noteq> sample_service \<and>
   (\<exists>r. sample_network 3600 sample_token_request = Inr r \<and> status_code r = 200)"
proof -
  have req: "token_request (sample_service\<lparr>access_token := JStr ''old'', token_expires_at := Some 1200\<rparr>)
      = sample_token_request" "token_request sample_service = sample_token_request"
    by (simp_all add: token_request_def sample_service_def sample_token_request_def)
  have stale: "\<not> cached_token_valid
      (sample_service\<lparr>access_token := JStr ''old'', token_expires_at := Some 1200\<rparr>) 1000"
    by (simp add: cached_token_valid_def)
  have fails: "refresh_fails (refusing_network 503 ''down'' sample_token_request)"
    by (simp add: refresh_fails_def refusing_network_def)
  have changed: "fst (snd (get_access_token sample_service (sample_network 3600) 1000 1001))
      \<noteq> sample_service"
    by (simp add: get_access_token_def cached_token_valid_def sample_service_def
        sample_network_def token_request_def)
  from failed_refresh_leaves_cache
    [of "sample_service\<lparr>access_token := JStr ''old'', token_expires_at := Some 1200\<rparr>"
        1000 "refusing_network 503 ''down''" 1001]
    failed_refresh_leaves_cache [of sample_service 1000 "sample_network 3600" 1001]
    stale fails changed req
  show ?thesis by simp
qed

section \<open>The remote folder\<close>

text \<open>
  C3, as stated, fails. With a listing that answers 500, \<open>_ensure_folder_exists\<close> goes
  on to the creation step and returns the id of the folder created; and when the creation
  fails, the result is \<open>None\<close> whatever the status and the text of the answer were.
\<close>

theorem listing_failure_counterexample:
  "ensure_folder_exists (sample_network 3600) (JStr ''T'') ''Docs''
     = (JStr ''F1'', [ChildrenGet (JStr ''T''), FolderPost (JStr ''T'') ''Docs'']) \<and>
   ensure_folder_exists (refusing_network 500 ''boom'') (JStr ''T'') ''Docs''
     = (JNull, [ChildrenGet (JStr ''T''), FolderPost (JStr ''T'') ''Docs'']) \<and>
   ensure_folder_exists (refusing_network 403 ''denied'') (JStr ''T'') ''Docs''
     = (JNull, [ChildrenGet (JStr ''T''), FolderPost (JStr ''T'') ''Docs''])"
  by (simp add: ensure_folder_exists_def search_existing_def created_folder_def
      sample_network_def refusing_network_def)

text \<open>
  C3, amended. For every token and folder name, if the creation request is issued and
  its answer has a status other than 200 and 201, \<open>_ensure_folder_exists\<close> fails by
  returning \<open>None\<close>, which carries neither the status nor the body.
\<close>

theorem failed_creation_returns_none:
  assumes "net (FolderPost token folder_name) = Inr r"
    and "status_code r \<noteq> 200" and "status_code r \<noteq> 201"
    and "FolderPost token folder_name \<in> set (snd (ensure_folder_exists net token folder_name))"
  shows "fst (ensure_folder_exists net token folder_name) = JNull"
  using assms
  by (auto simp: ensure_folder_exists_def created_folder_def split: sum.splits option.splits)

theorem failed_creation_returns_none_witness:
  "refusing_network 500 ''boom'' (FolderPost (JStr ''T'') ''Docs'')
     = Inr \<lparr>status_code = 500, resp_text = ''boom'', json_result = Inl (Raised ''no JSON'')\<rparr> \<and>
   FolderPost (JStr ''T'') ''Docs''
     \<in> set (snd (ensure_folder_exists (refusing_network 500 ''boom'') (JStr ''T'') ''Docs'')) \<and>
   fst (ensure_folder_exists (refusing_network 500 ''boom'') (JStr ''T'') ''Docs'') = JNull"
proof -
  have a: "refusing_network 500 ''boom'' (FolderPost (JStr ''T'') ''Docs'')
     = Inr \<lparr>status_code = 500, resp_text = ''boom'', json_result = Inl (Raised ''no JSON'')\<rparr>"
    by (simp add: refusing_network_def)
  have b: "FolderPost (JStr ''T'') ''Docs''
     \<in> set (snd (ensure_folder_exists (refusing_network 500 ''boom'') (JStr ''T'') ''Docs''))"
    by (simp add: ensure_folder_exists_def search_existing_def created_folder_def
        refusing_network_def)
  from failed_creation_returns_none [OF a _ _ b] a b show ?thesis by simp
qed

section \<open>Unique names and output names\<close>

text \<open>
  C4, as stated, fails. \<open>strftime("%Y%m%d_%H%M%S")\<close> puts an underscore between the date
  and the time, so the name made for \<open>report.pdf\<close> and \<open>u1\<close> is not \<open>report_u1_\<close>,
  fourteen digits and \<open>.pdf\<close>.
\<close>

theorem unique_name_counterexample:
  "get_unique_filename ''report.pdf'' ''u1'' sample_datetime
     = Inr ''report_u1_20240105_090307.pdf'' \<and>
   \<not> fourteen_digit_name ''report_u1_'' ''.pdf'' ''report_u1_20240105_090307.pdf''"
  by code_simp

text \<open>
  C4, amended. At every instant \<open>_get_unique_filename\<close> applied to \<open>report.pdf\<close> and
  \<open>u1\<close> produces \<open>report_u1_\<close>, eight digits, an underscore, six digits and \<open>.pdf\<close>;
  and two calls in the same wall-clock second with the same file name and user id produce
  the same name.
\<close>

theorem unique_name_pattern:
  assumes "valid_datetime now"
  shows "(\<exists>date time. length date = 8 \<and> length time = 6 \<and>
            list_all is_digit date \<and> list_all is_digit time \<and>
            get_unique_filename ''report.pdf'' ''u1'' now
              = Inr (''report_u1_'' @ date @ ''_'' @ time @ ''.pdf'')) \<and>
         (same_second now now' \<longrightarrow>
            get_unique_filename file_name user_id now'
              = get_unique_filename file_name user_id now)"
proof
  from strftime_shape [OF assms] obtain date time where
    dt: "length date = 8" "length time = 6" "list_all is_digit date" "list_all is_digit time"
    and stamp: "strftime now = date @ ''_'' @ time" by blast
  have "rsplit1 CHR ''.'' ''report.pdf'' = [''report'', ''pdf'']"
    by (simp add: rsplit1_def)
  with stamp have "get_unique_filename ''report.pdf'' ''u1'' now
      = Inr (''report_u1_'' @ date @ ''_'' @ time @ ''.pdf'')"
    by (simp add: get_unique_filename_def)
  with dt show "\<exists>date time. length date = 8 \<and> length time = 6 \<and>
            list_all is_digit date \<and> list_all is_digit time \<and>
            get_unique_filename ''report.pdf'' ''u1'' now
              = Inr (''report_u1_'' @ date @ ''_'' @ time @ ''.pdf'')" by blast
next
  show "same_second now now' \<longrightarrow>
            get_unique_filename file_name user_id now'
              = get_unique_filename file_name user_id now"
    by (auto simp: get_unique_filename_def dest: strftime_same_second)
qed

theorem unique_name_pattern_witness:
  "valid_datetime sample_datetime \<and> same_second sample_datetime (sample_datetime\<lparr>microsecond := 999999\<rparr>) \<and>
   get_unique_filename ''report.pdf'' ''u1'' sample_datetime = Inr ''report_u1_20240105_090307.pdf'' \<and>
   get_unique_filename ''report.pdf'' ''u1'' (sample_datetime\<lparr>microsecond := 999999\<rparr>)
     = Inr ''report_u1_20240105_090307.pdf''"
proof -
  have v: "valid_datetime sample_datetime"
    by (simp add: valid_datetime_def sample_datetime_def)
  have s: "same_second sample_datetime (sample_datetime\<lparr>microsecond := 999999\<rparr>)"
    by (simp add: same_second_def)
  have e: "get_unique_filename ''report.pdf'' ''u1'' sample_datetime = Inr ''report_u1_20240105_090307.pdf''"
    by code_simp
  from unique_name_pattern [OF v, of "sample_datetime\<lparr>microsecond := 999999\<rparr>" "''report.pdf''" "''u1''"] v s e
  show ?thesis by simp
qed

text \<open>
  C5. For every blob name that contains a dot, the output blob name of \<open>get_result\<close> is
  \<open><base>-<target_language>.<ext>\<close>, where base and extension are the parts before and
  after the last dot; for \<open>doc.docx\<close> and \<open>es\<close> it is \<open>doc-es.docx\<close>.
\<close>

theorem output_blob_name_derivation:
  "(CHR ''.'' \<in> set blob_name \<longrightarrow>
      (\<exists>file_base file_ext. blob_name = file_base @ ''.'' @ file_ext \<and> CHR ''.'' \<notin> set file_ext \<and>
         output_blob_name blob_name target_language
           = Inr (file_base @ ''-'' @ target_language @ ''.'' @ file_ext))) \<and>
   output_blob_name ''doc.docx'' ''es'' = Inr ''doc-es.docx''"
proof (intro conjI impI)
  assume "CHR ''.'' \<in> set blob_name"
  then obtain file_base file_ext where
    split: "blob_name = file_base @ CHR ''.'' # file_ext" "CHR ''.'' \<notin> set file_ext"
    by (meson split_list_last)
  then have "output_blob_name blob_name target_language
      = Inr (file_base @ ''-'' @ target_language @ ''.'' @ file_ext)"
    by (simp add: output_blob_name_def rsplit1_last)
  with split show "\<exists>file_base file_ext. blob_name = file_base @ ''.'' @ file_ext \<and>
      CHR ''.'' \<notin> set file_ext \<and>
      output_blob_name blob_name target_language
        = Inr (file_base @ ''-'' @ target_language @ ''.'' @ file_ext)"
    by auto
next
  show "output_blob_name ''doc.docx'' ''es'' = Inr ''doc-es.docx''"
    by (simp add: output_blob_name_def rsplit1_def)
qed

theorem output_blob_name_derivation_witness:
  "CHR ''.'' \<in> set ''a.b.docx'' \<and>
   output_blob_name ''a.b.docx'' ''fr'' = Inr ''a.b-fr.docx'' \<and>
   output_blob_name ''doc.docx'' ''es'' = Inr ''doc-es.docx''"
  using output_blob_name_derivation [of "''a.b.docx''" "''fr''"]
  by (simp add: output_blob_name_def rsplit1_def)

section \<open>The upload\<close>

text \<open>
  C6, as stated, fails. \<open>upload_to_onedrive\<close> tests \<open>is_configured\<close> before the
  flag: with the flag off on a service that is not configured the result is the failure
  \<open>OneDrive non configure\<close>, not a success.
\<close>

theorem unconfigured_disabled_counterexample:
  "upload_to_onedrive (sample_service\<lparr>configured := False, onedrive_upload_enabled := JBool False\<rparr>)
     (sample_network 3600) sample_clock ''bytes'' ''doc-es.docx'' ''u1''
   = (UploadFailed NotConfigured,
      sample_service\<lparr>configured := False, onedrive_upload_enabled := JBool False\<rparr>, []) \<and>
   \<not> success (UploadFailed NotConfigured)"
  by (simp add: upload_to_onedrive_def is_configured_def sample_service_def)

text \<open>
  C6, amended. For every file content, file name and user id, when the upload flag is
  \<open>False\<close> \<open>upload_to_onedrive\<close> issues no request and leaves the token cache as it
  was; on a configured service it returns the success that carries the \<open>info\<close> note, on
  a service that is not configured the failure \<open>NotConfigured\<close>.
\<close>

theorem disabled_upload_makes_no_request:
  assumes "onedrive_upload_enabled gs = JBool False"
  shows "snd (upload_to_onedrive gs net clk file_content file_name user_id) = (gs, []) \<and>
         (is_configured gs \<longrightarrow>
            fst (upload_to_onedrive gs net clk file_content file_name user_id) = UploadDisabled \<and>
            success UploadDisabled \<and> info UploadDisabled) \<and>
         (\<not> is_configured gs \<longrightarrow>
            fst (upload_to_onedrive gs net clk file_content file_name user_id)
              = UploadFailed NotConfigured)"
  using assms by (simp add: upload_to_onedrive_def)

theorem disabled_upload_makes_no_request_witness:
  "onedrive_upload_enabled (sample_service\<lparr>onedrive_upload_enabled := JBool False\<rparr>) = JBool False \<and>
   is_configured (sample_service\<lparr>onedrive_upload_enabled := JBool False\<rparr>) \<and>
   upload_to_onedrive (sample_service\<lparr>onedrive_upload_enabled := JBool False\<rparr>)
     (sample_network 3600) sample_clock ''bytes'' ''doc-es.docx'' ''u1''
   = (UploadDisabled, sample_service\<lparr>onedrive_upload_enabled := JBool False\<rparr>, []) \<and>
   \<not> is_configured (sample_service\<lparr>configured := False, onedrive_upload_enabled := JBool False\<rparr>) \<and>
   fst (upload_to_onedrive (sample_service\<lparr>configured := False, onedrive_upload_enabled := JBool False\<rparr>)
     (sample_network 3600) sample_clock ''bytes'' ''doc-es.docx'' ''u1'') = UploadFailed NotConfigured"
proof -
  have off: "onedrive_upload_enabled (sample_service\<lparr>onedrive_upload_enabled := JBool False\<rparr>)
      = JBool False"
    "onedrive_upload_enabled (sample_service\<lparr>configured := False, onedrive_upload_enabled := JBool False\<rparr>)
      = JBool False" by simp_all
  have conf: "is_configured (sample_service\<lparr>onedrive_upload_enabled := JBool False\<rparr>)"
    "\<not> is_configured (sample_service\<lparr>configured := False, onedrive_upload_enabled := JBool False\<rparr>)"
    by (simp_all add: is_configured_def sample_service_def)
  from disabled_upload_makes_no_request [OF off(1), of "sample_network 3600" sample_clock
      "''bytes''" "''doc-es.docx''" "''u1''"]
    disabled_upload_makes_no_request [OF off(2), of "sample_network 3600" sample_clock
      "''bytes''" "''doc-es.docx''" "''u1''"]
    off conf
  show ?thesis by (simp add: prod_eq_iff)
qed

section \<open>The handlers\<close>

text \<open>
  C7. For a request whose JSON body is an object with the fields \<open>blob_name\<close>,
  \<open>target_language\<close> and \<open>user_id\<close>, whatever their values: if the blob store reports
  the blob absent, \<open>start_translation\<close> answers 404; if the blob exists and the calls
  downstream succeed, it answers 202 with the job identifier the engine assigned, which
  is not empty.
\<close>

theorem start_translation_accepted_or_not_found:
  assumes "get_body req \<noteq> []" and "get_json req = Inr (JObj kvs)"
    and "map_of kvs ''blob_name'' = Some blob_name"
    and "map_of kvs ''target_language'' = Some lang"
    and "map_of kvs ''user_id'' = Some uid"
    and "new_blob_service env = Inr bs"
  shows "(check_blob_exists bs blob_name = Inr False \<longrightarrow>
            status (start_translation env req) = 404 \<and>
            content (start_translation env req) = Inl (BlobNotFound blob_name)) \<and>
         (check_blob_exists bs blob_name = Inr True \<and>
          prepare_translation_urls bs blob_name lang = Inr urls \<and>
          py_getitem urls ''source_url'' = Inr source_url \<and>
          py_getitem urls ''target_url'' = Inr target_url \<and>
          new_translation_service env = Inr ts \<and>
          submitted (service_start_translation ts source_url target_url lang) job_id \<longrightarrow>
            status (start_translation env req) = 202 \<and>
            content (start_translation env req)
              = Inr (TranslationStarted (JStr job_id) blob_name lang) \<and>
            job_id \<noteq> [])"
proof -
  from assms have body: "start_translation_body env req = submit_translation env blob_name lang"
    by (simp add: start_translation_body_def first_missing_present)
  show ?thesis using assms(6)
    by (simp add: start_translation_def body submit_translation_def submitted_def
        create_response_def create_error_response_def)
qed

theorem start_translation_accepted_or_not_found_witness:
  "get_body (sample_request ''doc.docx'') \<noteq> [] \<and>
   check_blob_exists sample_blob_service (JStr ''doc.docx'') = Inr True \<and>
   submitted (service_start_translation sample_translation_service
                (JStr ''https://source'') (JStr ''https://target'') (JStr ''es'')) ''job-1'' \<and>
   status (start_translation sample_app (sample_request ''doc.docx'')) = 202 \<and>
   content (start_translation sample_app (sample_request ''doc.docx''))
     = Inr (TranslationStarted (JStr ''job-1'') (JStr ''doc.docx'') (JStr ''es'')) \<and>
   check_blob_exists sample_blob_service (JStr ''other.docx'') = Inr False \<and>
   status (start_translation sample_app (sample_request ''other.docx'')) = 404"
proof -
  let ?kvs = "\<lambda>b. [(''blob_name'', JStr b), (''target_language'', JStr ''es''),
                    (''user_id'', JStr ''u1'')]"
  have req: "get_body (sample_request b) \<noteq> []" "get_json (sample_request b) = Inr (JObj (?kvs b))"
    "map_of (?kvs b) ''blob_name'' = Some (JStr b)"
    "map_of (?kvs b) ''target_language'' = Some (JStr ''es'')"
    "map_of (?kvs b) ''user_id'' = Some (JStr ''u1'')"
    "new_blob_service sample_app = Inr sample_blob_service" for b
    by (simp_all add: sample_request_def sample_app_def)
  have present: "check_blob_exists sample_blob_service (JStr ''doc.docx'') = Inr True"
    and absent: "check_blob_exists sample_blob_service (JStr ''other.docx'') = Inr False"
    and urls: "prepare_translation_urls sample_blob_service (JStr ''doc.docx'') (JStr ''es'')
      = Inr (JObj [(''source_url'', JStr ''https://source''),
                   (''target_url'', JStr ''https://target'')])"
    by (simp_all add: sample_blob_service_def)
  have job: "submitted (service_start_translation sample_translation_service
                (JStr ''https://source'') (JStr ''https://target'') (JStr ''es'')) ''job-1''"
    by (simp add: submitted_def sample_translation_service_def)
  have ts: "new_translation_service sample_app = Inr sample_translation_service"
    by (simp add: sample_app_def)
  from start_translation_accepted_or_not_found [OF req, of "''doc.docx''"
      "JObj [(''source_url'', JStr ''https://source''), (''target_url'', JStr ''https://target'')]"
      "JStr ''https://source''" "JStr ''https://target''" sample_translation_service "''job-1''"]
    start_translation_accepted_or_not_found [OF req, of "''other.docx''"]
    present absent urls job ts req(1)
  show ?thesis by simp
qed

text \<open>
  C8, as stated, fails. The catch-all of \<open>health_check\<close> answers 503, not 500.
\<close>

theorem health_check_catch_all_counterexample:
  "health_check_body (failing_app ''boom'') = Inl (Raised ''boom'') \<and>
   health_check (failing_app ''boom'') = create_error_response (ServiceUnhealthy (Raised ''boom'')) 503 \<and>
   status (health_check (failing_app ''boom'')) \<noteq> 500"
  by (simp add: health_check_def health_check_body_def failing_app_def required_vars_def
      create_error_response_def)

text \<open>
  C8, amended. Every handler is a total function to a response, so none lets an exception
  propagate. An exception that reaches the catch-all of \<open>start_translation\<close>,
  \<open>check_status\<close>, \<open>get_result\<close>, \<open>languages\<close> or \<open>formats\<close> becomes a response
  with status 500 that carries the exception; one that reaches the catch-all of
  \<open>health\<close> becomes a response with status 503 that carries the exception.
\<close>

theorem handlers_catch_all:
  "(start_translation_body env req = Inl e \<longrightarrow>
      start_translation env req = create_error_response (TranslationFailed e) 500) \<and>
   (map_of (route_params req) ''translation_id'' = Some translation_id \<and> translation_id \<noteq> [] \<and>
    check_translation_status_body env translation_id = Inl e \<longrightarrow>
      check_translation_status env req = create_error_response (InternalFailure e) 500) \<and>
   (map_of (params req) ''blob_name'' = Some blob_name \<and> blob_name \<noteq> [] \<and>
    map_of (params req) ''target_language'' = Some lang \<and> lang \<noteq> [] \<and>
    get_translation_result_body env gs net clk blob_name lang (map_of (params req) ''user_id'')
      = Inl e \<longrightarrow>
      get_translation_result env gs net clk req
        = (create_error_response (InternalFailure e) 500, gs, [])) \<and>
   (listing_body ''languages'' (get_all_languages env) = Inl e \<longrightarrow>
      get_supported_languages env = create_error_response (InternalFailure e) 500) \<and>
   (listing_body ''formats'' (get_all_formats env) = Inl e \<longrightarrow>
      get_supported_formats env = create_error_response (InternalFailure e) 500) \<and>
   (health_check_body env = Inl e \<longrightarrow>
      health_check env = create_error_response (ServiceUnhealthy e) 503)"
  by (simp add: start_translation_def check_translation_status_def get_translation_result_def
      get_supported_languages_def get_supported_formats_def health_check_def)

theorem handlers_catch_all_witness:
  "start_translation_body (failing_app ''boom'') (sample_request ''doc.docx'') = Inl (Raised ''boom'') \<and>
   status (start_translation (failing_app ''boom'') (sample_request ''doc.docx'')) = 500 \<and>
   check_translation_status_body (failing_app ''boom'') ''job-1'' = Inl (Raised ''boom'') \<and>
   status (check_translation_status (failing_app ''boom'') (sample_request ''doc.docx'')) = 500 \<and>
   get_translation_result_body (failing_app ''boom'') sample_service (sample_network 60) sample_clock
     ''doc.docx'' ''es'' None = Inl (Raised ''boom'') \<and>
   status (fst (get_translation_result (failing_app ''boom'') sample_service (sample_network 60)
     sample_clock (sample_request ''doc.docx''))) = 500 \<and>
   listing_body ''languages'' (get_all_languages (failing_app ''boom'')) = Inl (Raised ''boom'') \<and>
   status (get_supported_languages (failing_app ''boom'')) = 500 \<and>
   listing_body ''formats'' (get_all_formats (failing_app ''boom'')) = Inl (Raised ''boom'') \<and>
   status (get_supported_formats (failing_app ''boom'')) = 500 \<and>
   health_check_body (failing_app ''boom'') = Inl (Raised ''boom'') \<and>
   status (health_check (failing_app ''boom'')) = 503"
proof -
  have bodies:
    "start_translation_body (failing_app ''boom'') (sample_request ''doc.docx'') = Inl (Raised ''boom'')"
    "check_translation_status_body (failing_app ''boom'') ''job-1'' = Inl (Raised ''boom'')"
    "get_translation_result_body (failing_app ''boom'') sample_service (sample_network 60) sample_clock
       ''doc.docx'' ''es'' None = Inl (Raised ''boom'')"
    "listing_body ''languages'' (get_all_languages (failing_app ''boom'')) = Inl (Raised ''boom'')"
    "listing_body ''formats'' (get_all_formats (failing_app ''boom'')) = Inl (Raised ''boom'')"
    "health_check_body (failing_app ''boom'') = Inl (Raised ''boom'')"
    by (simp_all add: start_translation_body_def submit_translation_def required_fields_def
        check_translation_status_body_def get_translation_result_body_def output_blob_name_def
        rsplit1_def listing_body_def health_check_body_def required_vars_def
        failing_app_def sample_request_def)
  have req: "map_of (route_params (sample_request ''doc.docx'')) ''translation_id'' = Some ''job-1''"
    "map_of (params (sample_request ''doc.docx'')) ''blob_name'' = Some ''doc.docx''"
    "map_of (params (sample_request ''doc.docx'')) ''target_language'' = Some ''es''"
    "map_of (params (sample_request ''doc.docx'')) ''user_id'' = None"
    by (simp_all add: sample_request_def)
  from handlers_catch_all [of "failing_app ''boom''" "sample_request ''doc.docx''" "Raised ''boom''"
      "''job-1''" "''doc.docx''" "''es''" sample_service "sample_network 60" sample_clock]
    bodies req
  show ?thesis by (simp add: create_error_response_def)
qed

text \<open>
  C10, as stated, fails. A request with \<open>blob_name=doc\<close> and no \<open>target_language\<close>
  is answered 400 by the test of the parameters, before the name is split.
\<close>

theorem get_result_missing_language_counterexample:
  "CHR ''.'' \<notin> set ''doc'' \<and>
   map_of (params ((sample_request ''doc'')\<lparr>params := [(''blob_name'', ''doc'')]\<rparr>)) ''blob_name''
     = Some ''doc'' \<and>
   status (fst (get_translation_result sample_app sample_service (sample_network 60) sample_clock
     ((sample_request ''doc'')\<lparr>params := [(''blob_name'', ''doc'')]\<rparr>))) = 400"
  by (simp add: get_translation_result_def create_error_response_def)

text \<open>
  C10, amended. For every \<open>get_result\<close> request whose \<open>blob_name\<close> and
  \<open>target_language\<close> are both present and not empty and whose \<open>blob_name\<close> contains
  no dot, the handler answers 500: the unpacking of the split raises \<open>ValueError\<close>,
  which the catch-all absorbs; no request is issued and the token cache is unchanged.
\<close>

theorem get_result_without_extension:
  assumes "map_of (params req) ''blob_name'' = Some blob_name" and "blob_name \<noteq> []"
    and "CHR ''.'' \<notin> set blob_name"
    and "map_of (params req) ''target_language'' = Some lang" and "lang \<noteq> []"
  shows "get_translation_result env gs net clk req
           = (create_error_response
                (InternalFailure
                   (ValueError ''not enough values to unpack (expected 2, got 1)'')) 500,
              gs, []) \<and>
         status (fst (get_translation_result env gs net clk req)) = 500"
proof -
  have "decimal 1 = ''1''"
    by (simp add: decimal.simps digit_char_def)
  with assms(3) have "output_blob_name blob_name lang
      = Inl (ValueError ''not enough values to unpack (expected 2, got 1)'')"
    by (simp add: output_blob_name_def rsplit1_def)
  with assms show ?thesis
    by (simp add: get_translation_result_def get_translation_result_body_def
        create_error_response_def)
qed

theorem get_result_without_extension_witness:
  "map_of (params (sample_request ''doc'')) ''blob_name'' = Some ''doc'' \<and> ''doc'' \<noteq> [] \<and>
   CHR ''.'' \<notin> set ''doc'' \<and>
   map_of (params (sample_request ''doc'')) ''target_language'' = Some ''es'' \<and> ''es'' \<noteq> [] \<and>
   status (fst (get_translation_result sample_app sample_service (sample_network 60) sample_clock
     (sample_request ''doc''))) = 500"
proof -
  have p: "map_of (params (sample_request ''doc'')) ''blob_name'' = Some ''doc''"
    "map_of (params (sample_request ''doc'')) ''target_language'' = Some ''es''"
    by (simp_all add: sample_request_def)
  have q: "''doc'' \<noteq> []" "CHR ''.'' \<notin> set ''doc''" "''es'' \<noteq> []" by simp_all
  from get_result_without_extension [OF p(1) q(1) q(2) p(2) q(3), of sample_app sample_service
      "sample_network 60" sample_clock] p q
  show ?thesis by (simp add: create_error_response_def)
qed

end
